theory Spec2Isabelle
  imports Main "HOL-Library.Monad_Syntax"
begin

section \<open>The data model of graw.go\<close>

text \<open>
  Go strings are byte sequences, so a Go \<^verbatim>\<open>string\<close> is a \<^typ>\<open>string\<close> (a list of
  8-bit characters). The integer fields are only stored and read back, never computed
  with, so Go's \<^verbatim>\<open>int\<close> is \<^typ>\<open>int\<close>.

  A Go pointer is either nil or the address of an object; a map value is a reference to a
  map object. Both are a \<open>ptr\<close>: \<open>None\<close> is nil, \<open>Some a\<close> is the object at address
  \<open>a\<close> of the heap component for its type.
\<close>

type_synonym addr = nat
type_synonym ptr = "addr option"

text \<open>\<^verbatim>\<open>xml.Name\<close> and \<^verbatim>\<open>xml.Attr\<close> of encoding/xml.\<close>

record Name =
  Space :: string
  Local :: string

record Attr =
  Name :: Name
  Value :: string

text \<open>Go's \<^verbatim>\<open>error\<close> interface value: \<open>None\<close> is the nil error.\<close>

type_synonym error = "string option"

record Point =
  XMLName :: Name
  X :: int
  Y :: int
  As :: string

text \<open>\<^verbatim>\<open>type Style struct { Attributes map[string]string }\<close>: the field holds a reference
  to a map object (nil for the zero value).\<close>

record Style =
  Attributes :: ptr

record Geometry =
  XMLName :: Name
  X :: int
  Y :: int
  Width :: string
  Height :: string
  Relative :: string
  As :: string
  Point :: ptr

record Cell =
  XMLName :: Name
  ID :: string
  Value :: string
  Style :: Style
  ParentID :: string
  Vertex :: string
  Edge :: string
  Source :: string
  Target :: string
  Geometry :: ptr

text \<open>
  A Go slice \<^verbatim>\<open>[]Cell\<close> is a header of three words: a pointer to the first element in a
  backing array, a length and a capacity. Copying a GraphModel copies the header of its
  Root, so both copies share the backing array. The nil slice has a nil pointer, length 0
  and capacity 0.
\<close>

record slice =
  Data :: ptr
  Len :: nat
  Cap :: nat

record GraphModel =
  XMLName :: Name
  Dx :: int
  Dy :: int
  Grid :: string
  GridSize :: string
  Guides :: string
  Tooltips :: string
  Connect :: string
  Arrows :: string
  Fold :: string
  Page :: string
  PageScale :: string
  PageWidth :: string
  PageHeight :: string
  Background :: string
  Math :: string
  Shadow :: string
  Root :: slice

text \<open>
  The heap: one component per type of object that the program reaches through a pointer
  or a map reference. An address is an index into the component; allocation appends.

  The component \<open>cells\<close> is the memory of all Cell values: a Cell allocated on its own
  (\<^verbatim>\<open>&Cell{...}\<close>, a Cell variable) takes one address, the backing array of a \<^verbatim>\<open>[]Cell\<close>
  of capacity \<open>n\<close> takes \<open>n\<close> consecutive addresses. Element \<open>i\<close> of a slice is at the
  address of its first element plus \<open>i\<close>, so a \<^verbatim>\<open>*Cell\<close> can point to a Cell of its own or
  into a backing array (\<^verbatim>\<open>&g.Root[i]\<close>), and two slices can share elements.
\<close>

record heap =
  cells :: "Cell list"
  geometries :: "Geometry list"
  attrmaps :: "(string \<rightharpoonup> string) list"
  graphs :: "GraphModel list"

definition topCellId :: string where
  "topCellId = ''0''"

definition rootCellID :: string where
  "rootCellID = ''1''"

subsection \<open>Zero values\<close>

definition zero_Name :: Name where
  "zero_Name = \<lparr>Space = '''', Local = ''''\<rparr>"

definition zero_Style :: Style where
  "zero_Style = \<lparr>Attributes = None\<rparr>"

definition zero_Geometry :: Geometry where
  "zero_Geometry = \<lparr>Geometry.XMLName = zero_Name, X = 0, Y = 0, Width = '''', Height = '''',
     Relative = '''', As = '''', Point = None\<rparr>"

definition zero_Cell :: Cell where
  "zero_Cell = \<lparr>Cell.XMLName = zero_Name, ID = '''', Value = '''', Style = zero_Style,
     ParentID = '''', Vertex = '''', Edge = '''', Source = '''', Target = '''', Geometry = None\<rparr>"

definition nil_slice :: slice where
  "nil_slice = \<lparr>Data = None, Len = 0, Cap = 0\<rparr>"

definition zero_GraphModel :: GraphModel where
  "zero_GraphModel = \<lparr>GraphModel.XMLName = zero_Name, Dx = 0, Dy = 0, Grid = '''',
     GridSize = '''', Guides = '''', Tooltips = '''', Connect = '''', Arrows = '''', Fold = '''',
     Page = '''', PageScale = '''', PageWidth = '''', PageHeight = '''', Background = '''',
     Math = '''', Shadow = '''', Root = nil_slice\<rparr>"

subsection \<open>Reading and writing the heap\<close>

text \<open>
  A function that can panic returns an option: \<open>None\<close> is the panic. Dereferencing nil
  panics. An address outside the heap has no counterpart in Go (a non-nil pointer always
  points to a live object); the model sends it to \<open>None\<close> as well, so that no read is
  left unspecified.
\<close>

definition deref :: "'a list \<Rightarrow> ptr \<Rightarrow> 'a option" where
  "deref xs p = (case p of None \<Rightarrow> None | Some a \<Rightarrow> if a < length xs then Some (xs ! a) else None)"

definition store :: "'a list \<Rightarrow> ptr \<Rightarrow> 'a \<Rightarrow> 'a list option" where
  "store xs p v = (case p of None \<Rightarrow> None | Some a \<Rightarrow> if a < length xs then Some (xs[a := v]) else None)"

definition alloc :: "'a list \<Rightarrow> 'a \<Rightarrow> ptr \<times> 'a list" where
  "alloc xs v = (Some (length xs), xs @ [v])"

text \<open>\<^verbatim>\<open>*p = c\<close> for a \<^verbatim>\<open>*Cell\<close>; a field assignment \<^verbatim>\<open>p.F = v\<close> reads the cell, updates
  the field and writes the cell back.\<close>

definition assign_Cell :: "ptr \<Rightarrow> (Cell \<Rightarrow> Cell) \<Rightarrow> heap \<Rightarrow> heap option" where
  "assign_Cell p f h = do {
     c \<leftarrow> deref (cells h) p;
     cs \<leftarrow> store (cells h) p (f c);
     Some (h\<lparr>cells := cs\<rparr>)
   }"

definition assign_Geometry :: "ptr \<Rightarrow> (Geometry \<Rightarrow> Geometry) \<Rightarrow> heap \<Rightarrow> heap option" where
  "assign_Geometry p f h = do {
     g \<leftarrow> deref (geometries h) p;
     gs \<leftarrow> store (geometries h) p (f g);
     Some (h\<lparr>geometries := gs\<rparr>)
   }"

definition assign_GraphModel :: "ptr \<Rightarrow> (GraphModel \<Rightarrow> GraphModel) \<Rightarrow> heap \<Rightarrow> heap option" where
  "assign_GraphModel p f h = do {
     g \<leftarrow> deref (graphs h) p;
     gs \<leftarrow> store (graphs h) p (f g);
     Some (h\<lparr>graphs := gs\<rparr>)
   }"

text \<open>\<^verbatim>\<open>make(map[string]string)\<close> and a map literal allocate a map object.\<close>

definition make_map :: "(string \<rightharpoonup> string) \<Rightarrow> heap \<Rightarrow> ptr \<times> heap" where
  "make_map m h = (let (p, ms) = alloc (attrmaps h) m in (p, h\<lparr>attrmaps := ms\<rparr>))"

text \<open>\<^verbatim>\<open>m[k] = v\<close>: an assignment to an entry of the nil map panics.\<close>

definition map_assign :: "ptr \<Rightarrow> string \<Rightarrow> string \<Rightarrow> heap \<Rightarrow> heap option" where
  "map_assign p k v h = do {
     m \<leftarrow> deref (attrmaps h) p;
     ms \<leftarrow> store (attrmaps h) p (m(k \<mapsto> v));
     Some (h\<lparr>attrmaps := ms\<rparr>)
   }"

text \<open>Reading a map: the nil map reads as the map with no entries (\<^verbatim>\<open>range\<close> over it
  runs no iteration).\<close>

definition entries :: "heap \<Rightarrow> ptr \<Rightarrow> (string \<rightharpoonup> string)" where
  "entries h p = (case deref (attrmaps h) p of None \<Rightarrow> Map.empty | Some m \<Rightarrow> m)"

subsection \<open>Slices of cells\<close>

text \<open>
  A slice header is valid in a heap when its length is at most its capacity and its
  capacity lies inside the memory of cells (capacity 0 for the nil pointer). Go only
  produces valid headers. \<open>slice_contents\<close> reads the elements of a slice, up to its
  length; \<open>elem_ptr s i\<close> is \<^verbatim>\<open>&s[i]\<close>.
\<close>

definition valid_slice :: "heap \<Rightarrow> slice \<Rightarrow> bool" where
  "valid_slice h s \<longleftrightarrow>
     Len s \<le> Cap s \<and> (case Data s of None \<Rightarrow> Cap s = 0 | Some b \<Rightarrow> b + Cap s \<le> length (cells h))"

definition slice_contents :: "heap \<Rightarrow> slice \<Rightarrow> Cell list option" where
  "slice_contents h s =
     (if valid_slice h s
      then Some (case Data s of None \<Rightarrow> [] | Some b \<Rightarrow> take (Len s) (drop b (cells h)))
      else None)"

definition elem_ptr :: "slice \<Rightarrow> nat \<Rightarrow> ptr" where
  "elem_ptr s i = map_option (\<lambda>b. b + i) (Data s)"

text \<open>Allocating an array: its elements take consecutive addresses at the end.\<close>

definition alloc_array :: "'a list \<Rightarrow> 'a list \<Rightarrow> ptr \<times> 'a list" where
  "alloc_array xs vs = (Some (length xs), xs @ vs)"

text \<open>
  \<^verbatim>\<open>append(s, x)\<close> for one element. When the length is below the capacity, \<open>x\<close> is
  written in place, into the backing array at index \<open>Len s\<close>, and the result shares the
  array with \<open>s\<close>. Otherwise a new array is allocated, the elements of \<open>s\<close> are copied to
  it, and \<open>x\<close> is written after them. The language leaves the capacity of the new array to
  the runtime, but for its being large enough: \<open>spare n\<close> is the number of elements beyond
  \<open>n\<close> that the runtime adds when it allocates an array for \<open>n\<close> elements; they hold the
  zero Cell.
\<close>

definition append_Cell :: "(nat \<Rightarrow> nat) \<Rightarrow> slice \<Rightarrow> Cell \<Rightarrow> heap \<Rightarrow> (slice \<times> heap) option" where
  "append_Cell spare s x h = do {
     xs \<leftarrow> slice_contents h s;
     if Len s < Cap s
     then do {
       cs \<leftarrow> store (cells h) (elem_ptr s (Len s)) x;
       Some (s\<lparr>Len := Len s + 1\<rparr>, h\<lparr>cells := cs\<rparr>)
     }
     else do {
       (b, cs) \<leftarrow> Some (alloc_array (cells h) (xs @ [x] @ replicate (spare (Len s + 1)) zero_Cell));
       Some (\<lparr>Data = b, Len = Len s + 1, Cap = Len s + 1 + spare (Len s + 1)\<rparr>, h\<lparr>cells := cs\<rparr>)
     }
   }"


section \<open>The constructors\<close>

text \<open>\<^verbatim>\<open>func newCell(id string, layerId string) *Cell\<close>\<close>

definition newCell :: "string \<Rightarrow> string \<Rightarrow> heap \<Rightarrow> ptr \<times> heap" where
  "newCell ident layerId h =
     (let (p, cs) = alloc (cells h) (zero_Cell\<lparr>ID := ident, ParentID := layerId\<rparr>)
      in (p, h\<lparr>cells := cs\<rparr>))"

text \<open>\<^verbatim>\<open>func newGeometry() *Geometry\<close>\<close>

definition newGeometry :: "heap \<Rightarrow> ptr \<times> heap" where
  "newGeometry h =
     (let (p, gs) = alloc (geometries h) (zero_Geometry\<lparr>Geometry.X := 10, Y := 10, As := ''geometry''\<rparr>)
      in (p, h\<lparr>geometries := gs\<rparr>))"

text \<open>\<^verbatim>\<open>func NewShape(id, layerId string) *Cell\<close>\<close>

definition NewShape :: "string \<Rightarrow> string \<Rightarrow> heap \<Rightarrow> (ptr \<times> heap) option" where
  "NewShape ident layerId h0 = do {
     (s, h1) \<leftarrow> Some (newCell ident layerId h0);
     h2 \<leftarrow> assign_Cell s (\<lambda>c. c\<lparr>Vertex := ''1''\<rparr>) h1;
     (g, h3) \<leftarrow> Some (newGeometry h2);
     h4 \<leftarrow> assign_Cell s (\<lambda>c. c\<lparr>Geometry := g\<rparr>) h3;
     Some (s, h4)
   }"

text \<open>\<^verbatim>\<open>func NewImage(id, layerId, url string) *Cell\<close>\<close>

definition NewImage :: "string \<Rightarrow> string \<Rightarrow> string \<Rightarrow> heap \<Rightarrow> (ptr \<times> heap) option" where
  "NewImage ident layerId url h0 = do {
     (i, h1) \<leftarrow> NewShape ident layerId h0;
     (m, h2) \<leftarrow> Some (make_map [''shape'' \<mapsto> ''image'', ''imageAspect'' \<mapsto> ''0'', ''image'' \<mapsto> url] h1);
     h3 \<leftarrow> assign_Cell i (\<lambda>c. c\<lparr>Style := \<lparr>Attributes = m\<rparr>\<rparr>) h2;
     Some (i, h3)
   }"

text \<open>\<^verbatim>\<open>func NewImageXY(id, layerId, url string, x int, y int) *Cell\<close>: both assignments
  go to the field X of the geometry that the cell points to.\<close>

definition NewImageXY :: "string \<Rightarrow> string \<Rightarrow> string \<Rightarrow> int \<Rightarrow> int \<Rightarrow> heap \<Rightarrow> (ptr \<times> heap) option" where
  "NewImageXY ident layerId url x y h0 = do {
     (i, h1) \<leftarrow> NewImage ident layerId url h0;
     c1 \<leftarrow> deref (cells h1) i;
     h2 \<leftarrow> assign_Geometry (Geometry c1) (\<lambda>g. g\<lparr>Geometry.X := x\<rparr>) h1;
     c2 \<leftarrow> deref (cells h2) i;
     h3 \<leftarrow> assign_Geometry (Geometry c2) (\<lambda>g. g\<lparr>Geometry.X := y\<rparr>) h2;
     Some (i, h3)
   }"

text \<open>\<^verbatim>\<open>func NewGraph() GraphModel\<close>: the graph is returned by value; both cells of its
  Root hold the same map reference. The slice literal \<^verbatim>\<open>[]Cell{..., ...}\<close> allocates an
  array of its two elements: length 2, capacity 2.\<close>

definition NewGraph :: "heap \<Rightarrow> (GraphModel \<times> heap) option" where
  "NewGraph h0 = do {
     (m, h1) \<leftarrow> Some (make_map Map.empty h0);
     rootStyle \<leftarrow> Some \<lparr>Attributes = m\<rparr>;
     h2 \<leftarrow> map_assign (Attributes rootStyle) ''html'' ''1'' h1;
     (b, cs) \<leftarrow> Some (alloc_array (cells h2)
                  [zero_Cell\<lparr>ID := topCellId, Style := rootStyle\<rparr>,
                   zero_Cell\<lparr>ID := rootCellID, ParentID := topCellId, Style := rootStyle\<rparr>]);
     Some (zero_GraphModel\<lparr>Dx := 640, Dy := 480, Root := \<lparr>Data = b, Len = 2, Cap = 2\<rparr>\<rparr>,
           h2\<lparr>cells := cs\<rparr>)
   }"

text \<open>
  \<^verbatim>\<open>func (g *GraphModel) Add(c *Cell) *GraphModel\<close>, with the runtime's growth policy
  \<open>spare\<close> for append. \<^verbatim>\<open>g.Root\<close> and \<^verbatim>\<open>*c\<close> are read, the latter copying the Cell struct,
  that is its fields, among them the Geometry pointer and the map reference of its
  Style; append writes the copy into the backing array of \<^verbatim>\<open>g.Root\<close> or into a new one;
  the header that append returns is assigned to \<^verbatim>\<open>g.Root\<close>.
\<close>

definition Add :: "(nat \<Rightarrow> nat) \<Rightarrow> ptr \<Rightarrow> ptr \<Rightarrow> heap \<Rightarrow> (ptr \<times> heap) option" where
  "Add spare g c h0 = do {
     gm \<leftarrow> deref (graphs h0) g;
     cv \<leftarrow> deref (cells h0) c;
     (s, h1) \<leftarrow> append_Cell spare (Root gm) cv h0;
     h2 \<leftarrow> assign_GraphModel g (\<lambda>gm'. gm'\<lparr>Root := s\<rparr>) h1;
     Some (g, h2)
   }"

section \<open>The style codec\<close>

text \<open>
  \<^verbatim>\<open>strings.Split(s, sep)\<close> of the Go standard library, for a separator of one byte (the
  source calls it with \<^verbatim>\<open>";"\<close> and \<^verbatim>\<open>"="\<close> only). As the library does, it cuts at
  the first occurrence of the separator and goes on with the rest; the last piece is what
  remains when the separator no longer occurs.
\<close>

function Split :: "string \<Rightarrow> char \<Rightarrow> string list" where
  "Split s sep =
     (if sep \<in> set s
      then takeWhile (\<lambda>c. c \<noteq> sep) s # Split (drop (Suc (length (takeWhile (\<lambda>c. c \<noteq> sep) s))) s) sep
      else [s])"
  by pat_completeness auto
termination
  by (relation "measure (\<lambda>(s, sep). length s)") (auto dest!: length_pos_if_in_set)

declare Split.simps [simp del]

text \<open>\<^verbatim>\<open>kv[i]\<close>: an index out of range panics.\<close>

definition index :: "'a list \<Rightarrow> nat \<Rightarrow> 'a option" where
  "index xs i = (if i < length xs then Some (xs ! i) else None)"

text \<open>
  \<^verbatim>\<open>for k, v := range a.Attributes\<close>: Go leaves the iteration order of a map
  unspecified. The order of one execution of the loop is the list \<open>ks\<close> of the keys as
  the loop meets them; \<open>range_order m ks\<close> says that \<open>ks\<close> is such an order for the
  map \<open>m\<close>: every key of \<open>m\<close>, once. The loop then sees the pairs \<open>range_pairs m ks\<close>:
  each key of \<open>ks\<close> with the value that \<open>m\<close> has for it (a key that \<open>m\<close> does not have
  would give no round of the loop; under \<open>range_order\<close> there is none).
\<close>

definition range_order :: "(string \<rightharpoonup> string) \<Rightarrow> string list \<Rightarrow> bool" where
  "range_order m ks \<longleftrightarrow> distinct ks \<and> set ks = dom m"

definition range_pairs :: "(string \<rightharpoonup> string) \<Rightarrow> string list \<Rightarrow> (string \<times> string) list" where
  "range_pairs m ks = List.map_filter (\<lambda>k. map_option (Pair k) (m k)) ks"

text \<open>The loop of MarshalXMLAttr over the pairs that range yields, on the text built so
  far.\<close>

fun marshal_loop :: "(string \<times> string) list \<Rightarrow> string \<Rightarrow> string" where
  "marshal_loop [] text = text"
| "marshal_loop ((k, v) # kvs) text =
     marshal_loop kvs
       (let text = text @ k;
            text = (if v \<noteq> '''' then (text @ ''='') @ v else text)
        in text @ '';'')"

text \<open>\<^verbatim>\<open>func (a Style) MarshalXMLAttr(name xml.Name) (xml.Attr, error)\<close>, in the
  iteration order \<open>ks\<close>.\<close>

definition MarshalXMLAttr :: "string list \<Rightarrow> Style \<Rightarrow> Name \<Rightarrow> heap \<Rightarrow> Attr \<times> error" where
  "MarshalXMLAttr ks a name h =
     (\<lparr>Name = \<lparr>Space = '''', Local = ''style''\<rparr>,
       Value = marshal_loop (range_pairs (entries h (Attributes a)) ks) ''''\<rparr>, None)"

text \<open>The loop of UnmarshalXMLAttr over the fragments; \<open>a\<close> is the Style that the receiver
  points to, which the loop reads and does not assign.\<close>

fun unmarshal_loop :: "Style \<Rightarrow> string list \<Rightarrow> heap \<Rightarrow> heap option" where
  "unmarshal_loop a [] h = Some h"
| "unmarshal_loop a (pair # pairs) h = do {
     kv \<leftarrow> Some (Split pair CHR ''='');
     kv \<leftarrow> Some (if length kv < 2 then kv @ [''''] else kv);
     k \<leftarrow> index kv 0;
     v \<leftarrow> index kv 1;
     h' \<leftarrow> map_assign (Attributes a) k v h;
     unmarshal_loop a pairs h'
   }"

text \<open>
  \<^verbatim>\<open>func (a *Style) UnmarshalXMLAttr(attr xml.Attr) error\<close>. The receiver is the Style
  that the pointer refers to (\<open>None\<close> for the nil receiver, where the first assignment
  panics); the Style as the call leaves it is returned next to the error.
\<close>

definition UnmarshalXMLAttr :: "Style option \<Rightarrow> Attr \<Rightarrow> heap \<Rightarrow> (error \<times> Style \<times> heap) option" where
  "UnmarshalXMLAttr a attr h0 = do {
     a0 \<leftarrow> a;
     (m, h1) \<leftarrow> Some (make_map Map.empty h0);
     a1 \<leftarrow> Some (a0\<lparr>Attributes := m\<rparr>);
     pairs \<leftarrow> Some (Split (Attr.Value attr) CHR '';'');
     h2 \<leftarrow> unmarshal_loop a1 pairs h1;
     Some (None, a1, h2)
   }"

section \<open>The vocabulary of the properties\<close>

text \<open>The heap before anything is allocated.\<close>

definition empty_heap :: heap where
  "empty_heap = \<lparr>cells = [], geometries = [], attrmaps = [], graphs = []\<rparr>"

text \<open>
  The key and the value that the decoder takes from one fragment: the key is the text
  before the first \<open>=\<close> (the whole fragment when there is none); the value is the text
  between the first \<open>=\<close> and the second one (up to the end when there is no second one,
  empty when there is no \<open>=\<close> at all).
\<close>

definition fragment_key :: "string \<Rightarrow> string" where
  "fragment_key pair = takeWhile (\<lambda>c. c \<noteq> CHR ''='') pair"

definition fragment_value :: "string \<Rightarrow> string" where
  "fragment_value pair =
     takeWhile (\<lambda>c. c \<noteq> CHR ''='') (drop (Suc (length (fragment_key pair))) pair)"

definition put_fragment :: "string \<Rightarrow> (string \<rightharpoonup> string) \<Rightarrow> (string \<rightharpoonup> string)" where
  "put_fragment pair m = m(fragment_key pair \<mapsto> fragment_value pair)"

text \<open>The entries derived from an attribute string: the fragments between the \<open>;\<close>, from
  left to right, each one stored under its key, a later fragment overwriting an earlier
  one with the same key.\<close>

definition decoded_entries :: "string \<Rightarrow> (string \<rightharpoonup> string)" where
  "decoded_entries s = fold put_fragment (Split s CHR '';'') Map.empty"

text \<open>The specification's words for the encoding of one entry: \<open>key;\<close> when the value is
  empty, \<open>key=value;\<close> otherwise.\<close>

definition render_entry :: "string \<Rightarrow> string \<Rightarrow> string" where
  "render_entry k v = (if v = '''' then k @ '';'' else k @ ''='' @ v @ '';'')"

text \<open>A key or a value that contains neither \<open>;\<close> nor \<open>=\<close>.\<close>

definition clean :: "string \<Rightarrow> bool" where
  "clean s \<longleftrightarrow> CHR '';'' \<notin> set s \<and> CHR ''='' \<notin> set s"

text \<open>
  Decoding what encoding produced: the Style \<open>a\<close> is encoded in the iteration order
  \<open>ks\<close>, the attribute is decoded into the Style \<open>b\<close>, and the entries that \<open>b\<close> then
  has are read.
\<close>

definition decode_of_encode :: "string list \<Rightarrow> Style \<Rightarrow> Name \<Rightarrow> Style \<Rightarrow> heap \<Rightarrow> (string \<rightharpoonup> string) option" where
  "decode_of_encode ks a name b h = do {
     (attr, err) \<leftarrow> Some (MarshalXMLAttr ks a name h);
     (err', b', h') \<leftarrow> UnmarshalXMLAttr (Some b) attr h;
     Some (entries h' (Attributes b'))
   }"

text \<open>Decoding a string into the zero Style, in the empty heap, and reading the entries.\<close>

definition decode_string :: "string \<Rightarrow> (string \<rightharpoonup> string) option" where
  "decode_string s = do {
     (err, a', h') \<leftarrow> UnmarshalXMLAttr (Some zero_Style) \<lparr>Name = zero_Name, Value = s\<rparr> empty_heap;
     Some (entries h' (Attributes a'))
   }"

text \<open>
  The specification's words for the value of a fragment, "the value being everything
  after the first \<open>=\<close>", and the entries that a decoder following them would produce.
\<close>

definition claimed_fragment_value :: "string \<Rightarrow> string" where
  "claimed_fragment_value pair = drop (Suc (length (fragment_key pair))) pair"

definition claimed_decoded_entries :: "string \<Rightarrow> (string \<rightharpoonup> string)" where
  "claimed_decoded_entries s =
     fold (\<lambda>pair m. m(fragment_key pair \<mapsto> claimed_fragment_value pair)) (Split s CHR '';'') Map.empty"

text \<open>
  What a reader of a cell sees: its fields, the geometry that it points to and the entries
  of its style. \<open>stored_copy h g\<close> is that view of the last cell of the Root of the graph
  at \<open>g\<close>.
\<close>

definition cell_view :: "heap \<Rightarrow> Cell \<Rightarrow> Cell \<times> Geometry option \<times> (string \<rightharpoonup> string)" where
  "cell_view h c = (c, deref (geometries h) (Geometry c), entries h (Attributes (Style c)))"

definition stored_copy :: "heap \<Rightarrow> ptr \<Rightarrow> (Cell \<times> Geometry option \<times> (string \<rightharpoonup> string)) option" where
  "stored_copy h g = do {
     gm \<leftarrow> deref (graphs h) g;
     xs \<leftarrow> slice_contents h (Root gm);
     c \<leftarrow> (if xs = [] then None else Some (last xs));
     Some (cell_view h c)
   }"

text \<open>The ids of the cells of the Root of the graph at \<open>g\<close>, in order.\<close>

definition root_ids :: "heap \<Rightarrow> ptr \<Rightarrow> string list option" where
  "root_ids h g = do {
     gm \<leftarrow> deref (graphs h) g;
     xs \<leftarrow> slice_contents h (Root gm);
     Some (map ID xs)
   }"

text \<open>
  The growth policy of the examples: an array that is full, at capacity \<open>n - 1\<close>, is
  replaced by one of twice that capacity, which leaves \<open>n - 2\<close> spare elements beside the
  \<open>n\<close> that it must hold (none when the old capacity is 0).
\<close>

definition doubling :: "nat \<Rightarrow> nat" where
  "doubling n = n - 2"

text \<open>\<^verbatim>\<open>var g GraphModel = gm\<close>: a graph variable, holding a copy of the value \<open>gm\<close>.\<close>

definition var_GraphModel :: "GraphModel \<Rightarrow> heap \<Rightarrow> ptr \<times> heap" where
  "var_GraphModel gm h = (let (g, gs) = alloc (graphs h) gm in (g, h\<lparr>graphs := gs\<rparr>))"


text \<open>
  A caller whose two graphs share a backing array:
  \<^verbatim>\<open>g1 := NewGraph(); g1.Add(NewShape("a", "1")); g2 := g1;\<close>
  \<^verbatim>\<open>g1.Add(NewShape("b", "1")); g2.Add(NewShape("c", "1"))\<close>.
  The result is the ids of the cells of \<open>g1\<close> and of \<open>g2\<close> at the end.
\<close>

definition add_to_two_graphs :: "(string list \<times> string list) option" where
  "add_to_two_graphs = do {
     (gm, h1) \<leftarrow> NewGraph empty_heap;
     (g1, h2) \<leftarrow> Some (var_GraphModel gm h1);
     (a, h3) \<leftarrow> NewShape ''a'' ''1'' h2;
     (r, h4) \<leftarrow> Add doubling g1 a h3;
     gm1 \<leftarrow> deref (graphs h4) g1;
     (g2, h5) \<leftarrow> Some (var_GraphModel gm1 h4);
     (b, h6) \<leftarrow> NewShape ''b'' ''1'' h5;
     (r, h7) \<leftarrow> Add doubling g1 b h6;
     (c, h8) \<leftarrow> NewShape ''c'' ''1'' h7;
     (r, h9) \<leftarrow> Add doubling g2 c h8;
     ids1 \<leftarrow> root_ids h9 g1;
     ids2 \<leftarrow> root_ids h9 g2;
     Some (ids1, ids2)
   }"

text \<open>
  A caller that adds the cell in the spare capacity of the graph's own backing array:
  \<^verbatim>\<open>g := NewGraph(); g.Add(NewShape("a", "1")); c := &g.Root[:4][3];\<close>
  \<^verbatim>\<open>c.ID = "n1"; g.Add(c); c.Value = v\<close>.
  The result is the Value of the stored copy as seen before and after the last
  assignment.
\<close>

definition add_spare_slot_then_change :: "string \<Rightarrow> (string \<times> string) option" where
  "add_spare_slot_then_change v = do {
     (gm, h1) \<leftarrow> NewGraph empty_heap;
     (g, h2) \<leftarrow> Some (var_GraphModel gm h1);
     (a, h3) \<leftarrow> NewShape ''a'' ''1'' h2;
     (r, h4) \<leftarrow> Add doubling g a h3;
     gm4 \<leftarrow> deref (graphs h4) g;
     c \<leftarrow> (if 3 < Cap (Root gm4) then Some (elem_ptr (Root gm4) 3) else None);
     h5 \<leftarrow> assign_Cell c (\<lambda>cell. cell\<lparr>ID := ''n1''\<rparr>) h4;
     (r, h6) \<leftarrow> Add doubling g c h5;
     before \<leftarrow> stored_copy h6 g;
     h7 \<leftarrow> assign_Cell c (\<lambda>cell. cell\<lparr>Value := v\<rparr>) h6;
     after \<leftarrow> stored_copy h7 g;
     Some (Cell.Value (fst before), Cell.Value (fst after))
   }"

text \<open>
  The heap that
  \<^verbatim>\<open>g := NewGraph(); g.Add(NewShape("a", "1")); g2 := g;\<close>
  \<^verbatim>\<open>c := NewImage("n1", "1", "http://x/img.png")\<close>
  leaves: the two cells of the slice literal at the addresses 0 and 1, the shape at 2, the
  backing array of capacity 4 that the first Add allocated at 3 to 6, with three cells
  and one spare element, and the image cell at 7; the two graphs hold the same slice
  header.
\<close>

definition default_Geometry :: Geometry where
  "default_Geometry = zero_Geometry\<lparr>Geometry.X := 10, Y := 10, As := ''geometry''\<rparr>"

definition top_Cell :: Cell where
  "top_Cell = zero_Cell\<lparr>ID := ''0'', Style := \<lparr>Attributes = Some 0\<rparr>\<rparr>"

definition layer_Cell :: Cell where
  "layer_Cell = zero_Cell\<lparr>ID := ''1'', ParentID := ''0'', Style := \<lparr>Attributes = Some 0\<rparr>\<rparr>"

definition shape_Cell :: Cell where
  "shape_Cell = zero_Cell\<lparr>ID := ''a'', ParentID := ''1'', Vertex := ''1'', Geometry := Some 0\<rparr>"

definition image_Cell :: Cell where
  "image_Cell = zero_Cell\<lparr>ID := ''n1'', ParentID := ''1'', Vertex := ''1'', Geometry := Some 1,
     Style := \<lparr>Attributes = Some 1\<rparr>\<rparr>"

definition graph_value :: GraphModel where
  "graph_value = zero_GraphModel\<lparr>Dx := 640, Dy := 480, Root := \<lparr>Data = Some 3, Len = 3, Cap = 4\<rparr>\<rparr>"

definition graph_heap :: heap where
  "graph_heap = \<lparr>cells = [top_Cell, layer_Cell, shape_Cell,
                           top_Cell, layer_Cell, shape_Cell, zero_Cell, image_Cell],
     geometries = [default_Geometry, default_Geometry],
     attrmaps = [[''html'' \<mapsto> ''1''],
                 [''shape'' \<mapsto> ''image'', ''imageAspect'' \<mapsto> ''0'', ''image'' \<mapsto> ''http://x/img.png'']],
     graphs = [graph_value, graph_value]\<rparr>"

definition build_graph_heap :: "heap option" where
  "build_graph_heap = do {
     (gm, h1) \<leftarrow> NewGraph empty_heap;
     (g, h2) \<leftarrow> Some (var_GraphModel gm h1);
     (a, h3) \<leftarrow> NewShape ''a'' ''1'' h2;
     (r, h4) \<leftarrow> Add doubling g a h3;
     gm4 \<leftarrow> deref (graphs h4) g;
     (g2, h5) \<leftarrow> Some (var_GraphModel gm4 h4);
     (c, h6) \<leftarrow> NewImage ''n1'' ''1'' ''http://x/img.png'' h5;
     Some h6
   }"

text \<open>A heap with one cell, one map of two entries and one graph with an empty Root.\<close>

definition example_heap :: heap where
  "example_heap = \<lparr>cells = [zero_Cell\<lparr>ID := ''n1'', Value := ''label''\<rparr>], geometries = [],
     attrmaps = [[''rounded'' \<mapsto> ''1'', ''dashed'' \<mapsto> '''']], graphs = [zero_GraphModel]\<rparr>"

section \<open>Facts about the heap and the constructors\<close>

lemma deref_alloc_new: "deref (xs @ [v]) (Some (length xs)) = Some v"
  by (simp add: deref_def)

lemma store_alloc_new: "store (xs @ [v]) (Some (length xs)) w = Some (xs @ [w])"
  by (simp add: store_def)

lemma NewShape_eq:
  "NewShape ident layerId h =
     Some (Some (length (cells h)),
           h\<lparr>cells := cells h @ [zero_Cell\<lparr>ID := ident, ParentID := layerId, Vertex := ''1'',
                                            Geometry := Some (length (geometries h))\<rparr>],
             geometries := geometries h @ [zero_Geometry\<lparr>Geometry.X := 10, Y := 10, As := ''geometry''\<rparr>]\<rparr>)"
  by (simp add: NewShape_def newCell_def newGeometry_def alloc_def assign_Cell_def
      deref_alloc_new store_alloc_new)

lemma NewImage_eq:
  "NewImage ident layerId url h =
     Some (Some (length (cells h)),
           h\<lparr>cells := cells h @ [zero_Cell\<lparr>ID := ident, ParentID := layerId, Vertex := ''1'',
                                            Geometry := Some (length (geometries h)),
                                            Style := \<lparr>Attributes = Some (length (attrmaps h))\<rparr>\<rparr>],
             geometries := geometries h @ [zero_Geometry\<lparr>Geometry.X := 10, Y := 10, As := ''geometry''\<rparr>],
             attrmaps := attrmaps h @ [[''shape'' \<mapsto> ''image'', ''imageAspect'' \<mapsto> ''0'', ''image'' \<mapsto> url]]\<rparr>)"
  by (simp add: NewImage_def NewShape_eq make_map_def alloc_def assign_Cell_def
      deref_alloc_new store_alloc_new)

lemma NewImageXY_eq:
  "NewImageXY ident layerId url x y h =
     Some (Some (length (cells h)),
           h\<lparr>cells := cells h @ [zero_Cell\<lparr>ID := ident, ParentID := layerId, Vertex := ''1'',
                                            Geometry := Some (length (geometries h)),
                                            Style := \<lparr>Attributes = Some (length (attrmaps h))\<rparr>\<rparr>],
             geometries := geometries h @ [zero_Geometry\<lparr>Geometry.X := y, Y := 10, As := ''geometry''\<rparr>],
             attrmaps := attrmaps h @ [[''shape'' \<mapsto> ''image'', ''imageAspect'' \<mapsto> ''0'', ''image'' \<mapsto> url]]\<rparr>)"
  by (simp add: NewImageXY_def NewImage_eq assign_Geometry_def
      deref_alloc_new store_alloc_new)

lemma NewGraph_eq:
  "NewGraph h =
     Some (zero_GraphModel\<lparr>Dx := 640, Dy := 480,
             Root := \<lparr>Data = Some (length (cells h)), Len = 2, Cap = 2\<rparr>\<rparr>,
           h\<lparr>attrmaps := attrmaps h @ [[''html'' \<mapsto> ''1'']],
             cells := cells h @
               [zero_Cell\<lparr>ID := ''0'', Style := \<lparr>Attributes = Some (length (attrmaps h))\<rparr>\<rparr>,
                zero_Cell\<lparr>ID := ''1'', ParentID := ''0'', Style := \<lparr>Attributes = Some (length (attrmaps h))\<rparr>\<rparr>]\<rparr>)"
  by (simp add: NewGraph_def make_map_def alloc_def alloc_array_def map_assign_def topCellId_def
      rootCellID_def deref_alloc_new store_alloc_new)

section \<open>The constructors: NewShape, NewImage, NewImageXY, NewGraph\<close>

text \<open>
  C7. For every id and parentId, and in every heap, NewShape(id, parentId) returns
  without a panic a pointer to a cell with Vertex = "1", ID = id, ParentID = parentId, no
  value, a style with no entries (its map is nil), and a geometry with x = 10, y = 10 and
  as = "geometry". The cell and the geometry have no other field set.
\<close>

theorem NewShape_default_vertex:
  "\<exists>s h' c g.
     NewShape ident layerId h = Some (s, h') \<and> deref (cells h') s = Some c \<and>
     Vertex c = ''1'' \<and> ID c = ident \<and> ParentID c = layerId \<and> Cell.Value c = '''' \<and>
     Attributes (Style c) = None \<and> entries h' (Attributes (Style c)) = Map.empty \<and>
     deref (geometries h') (Geometry c) = Some g \<and>
     Geometry.X g = 10 \<and> Geometry.Y g = 10 \<and> Geometry.As g = ''geometry'' \<and>
     c = zero_Cell\<lparr>ID := ident, ParentID := layerId, Vertex := ''1'', Geometry := Geometry c\<rparr> \<and>
     g = zero_Geometry\<lparr>Geometry.X := 10, Y := 10, As := ''geometry''\<rparr>"
  by (simp add: NewShape_eq deref_alloc_new entries_def deref_def zero_Cell_def zero_Style_def)

text \<open>
  C3. For every id, parentId, url, x and y, and in every heap, NewImageXY(id, parentId,
  url, x, y) returns without a panic a pointer to a cell whose geometry has X equal to the
  argument y and Y equal to the default 10, whatever the argument x is.
\<close>

theorem NewImageXY_X_is_y_and_Y_is_default:
  "\<exists>i h' c g.
     NewImageXY ident layerId url x y h = Some (i, h') \<and> deref (cells h') i = Some c \<and>
     deref (geometries h') (Geometry c) = Some g \<and>
     Geometry.X g = y \<and> Geometry.Y g = 10"
  by (simp add: NewImageXY_eq deref_alloc_new)

text \<open>
  C6. For every id, parentId and url, and in every heap, NewImage(id, parentId, url)
  returns the cell that NewShape(id, parentId) builds, at the same address and with the
  same geometry, but for its Style: the Style refers to a map allocated by NewImage, whose
  entries are exactly shape = image, imageAspect = 0 and image = url. Nothing of the
  style that the cell had before the assignment is kept.
\<close>

theorem NewImage_is_NewShape_with_style_replaced:
  "\<exists>i h1 c0 h' c.
     NewShape ident layerId h = Some (i, h1) \<and> deref (cells h1) i = Some c0 \<and>
     NewImage ident layerId url h = Some (i, h') \<and> deref (cells h') i = Some c \<and>
     c = c0\<lparr>Style := Style c\<rparr> \<and>
     deref (attrmaps h1) (Attributes (Style c)) = None \<and>
     entries h' (Attributes (Style c)) =
       [''shape'' \<mapsto> ''image'', ''imageAspect'' \<mapsto> ''0'', ''image'' \<mapsto> url] \<and>
     geometries h' = geometries h1"
  by (simp add: NewShape_eq NewImage_eq deref_alloc_new entries_def) (simp add: deref_def)

text \<open>
  C4. In every heap, NewGraph() returns without a panic a GraphModel with Dx = 640,
  Dy = 480 and a Root of exactly two cells (a slice of length 2, whose elements are read
  from the heap that the call leaves): the first with id "0", no parent and a style whose
  entries are exactly html = 1; the second with id "1", the id of the first cell as its
  parent, and the same style.
\<close>

theorem NewGraph_two_structural_cells:
  "\<exists>g h' c0 c1.
     NewGraph h = Some (g, h') \<and> Dx g = 640 \<and> Dy g = 480 \<and>
     Len (Root g) = 2 \<and> slice_contents h' (Root g) = Some [c0, c1] \<and>
     ID c0 = ''0'' \<and> ParentID c0 = '''' \<and> entries h' (Attributes (Style c0)) = [''html'' \<mapsto> ''1''] \<and>
     ID c1 = ''1'' \<and> ParentID c1 = ID c0 \<and> Style c1 = Style c0"
  by (simp add: NewGraph_eq slice_contents_def valid_slice_def deref_alloc_new entries_def zero_Cell_def)

section \<open>Add\<close>












text \<open>The heap \<open>graph_heap\<close> is the one that the caller's code builds.\<close>

lemma build_graph_heap_eq: "build_graph_heap = Some graph_heap"
  by (simp add: build_graph_heap_def NewGraph_eq NewShape_eq NewImage_eq var_GraphModel_def alloc_def
      empty_heap_def Add_def append_Cell_def slice_contents_def valid_slice_def alloc_array_def
      assign_GraphModel_def deref_def store_def doubling_def graph_heap_def graph_value_def
      top_Cell_def layer_Cell_def shape_Cell_def image_Cell_def default_Geometry_def)



text \<open>
  Two graphs that share a backing array: the second Add through \<open>g2\<close> writes the element
  that the Add through \<open>g1\<close> had written, so that \<open>g1\<close> ends with the cell c where it had
  stored b. Each Add leaves the cells that its own graph held before the call as they
  were.
\<close>

lemma add_to_two_graphs_eq:
  "add_to_two_graphs = Some ([''0'', ''1'', ''a'', ''c''], [''0'', ''1'', ''a'', ''c''])"
  by (simp add: add_to_two_graphs_def NewGraph_eq NewShape_eq empty_heap_def var_GraphModel_def alloc_def
      Add_def append_Cell_def slice_contents_def valid_slice_def alloc_array_def doubling_def
      elem_ptr_def assign_GraphModel_def root_ids_def deref_def store_def zero_Cell_def)

text \<open>
  The cell that is added is the spare element of the graph's own backing array: Add writes
  the copy onto the original, and a later assignment to the original is an assignment to
  the stored copy. This is the case that the last part of the theorem leaves out.
\<close>

lemma add_spare_slot_then_change_eq:
  "add_spare_slot_then_change ''changed'' = Some ('''', ''changed'')"
  by (simp add: add_spare_slot_then_change_def NewGraph_eq NewShape_eq empty_heap_def var_GraphModel_def
      alloc_def Add_def append_Cell_def slice_contents_def valid_slice_def alloc_array_def doubling_def
      elem_ptr_def assign_GraphModel_def assign_Cell_def stored_copy_def cell_view_def deref_def
      store_def zero_Cell_def)

section \<open>Facts about Split and the two loops\<close>

lemma takeWhile_no_sep: "sep \<notin> set s \<Longrightarrow> takeWhile (\<lambda>c. c \<noteq> sep) s = s"
  by (induction s) auto

lemma takeWhile_upto_sep: "sep \<notin> set a \<Longrightarrow> takeWhile (\<lambda>c. c \<noteq> sep) (a @ sep # b) = a"
  by (induction a) auto

lemma Split_no_sep: "sep \<notin> set s \<Longrightarrow> Split s sep = [s]"
  by (subst Split.simps) simp

lemma Split_Nil: "Split [] sep = [[]]"
  by (simp add: Split_no_sep)

lemma Split_not_Nil: "Split s sep \<noteq> []"
  by (subst Split.simps) simp

lemma hd_Split: "hd (Split s sep) = takeWhile (\<lambda>c. c \<noteq> sep) s"
  by (subst Split.simps) (simp add: takeWhile_no_sep)

lemma Split_append_sep:
  "sep \<notin> set a \<Longrightarrow> Split (a @ sep # b) sep = a # Split b sep"
  by (subst Split.simps) (simp add: takeWhile_upto_sep)

text \<open>The two elements that one round of the decoding loop reads from \<open>kv\<close>.\<close>

lemma Split_first_two:
  "index (if length (Split pair CHR ''='') < 2 then Split pair CHR ''='' @ [''''] else Split pair CHR ''='') 0
     = Some (fragment_key pair)"
  "index (if length (Split pair CHR ''='') < 2 then Split pair CHR ''='' @ [''''] else Split pair CHR ''='') 1
     = Some (fragment_value pair)"
proof -
  define kv where "kv = Split pair CHR ''=''"
  show "index (if length (Split pair CHR ''='') < 2 then Split pair CHR ''='' @ [''''] else Split pair CHR ''='') 0
     = Some (fragment_key pair)"
    using hd_Split[of pair "CHR ''=''"] Split_not_Nil[of pair "CHR ''=''"]
    unfolding kv_def[symmetric]
    by (cases kv) (auto simp: index_def fragment_key_def)
  show "index (if length (Split pair CHR ''='') < 2 then Split pair CHR ''='' @ [''''] else Split pair CHR ''='') 1
     = Some (fragment_value pair)"
  proof (cases "CHR ''='' \<in> set pair")
    case True
    then have "Split pair CHR ''='' = fragment_key pair # Split (drop (Suc (length (fragment_key pair))) pair) CHR ''=''"
      unfolding fragment_key_def by (subst Split.simps) simp
    moreover obtain w ws where "Split (drop (Suc (length (fragment_key pair))) pair) CHR ''='' = w # ws"
      using Split_not_Nil by (meson list.exhaust)
    ultimately show ?thesis
      using hd_Split[of "drop (Suc (length (fragment_key pair))) pair" "CHR ''=''"]
      by (simp add: index_def fragment_value_def)
  next
    case False
    then show ?thesis
      by (simp add: index_def fragment_value_def fragment_key_def Split_no_sep takeWhile_no_sep)
  qed
qed

lemma unmarshal_loop_Cons:
  "unmarshal_loop a (pair # pairs) h =
     map_assign (Attributes a) (fragment_key pair) (fragment_value pair) h \<bind> unmarshal_loop a pairs"
  by (simp only: unmarshal_loop.simps Option.bind.simps Split_first_two)

lemma map_assign_eq:
  "p < length (attrmaps h) \<Longrightarrow>
   map_assign (Some p) k v h = Some (h\<lparr>attrmaps := (attrmaps h)[p := (attrmaps h ! p)(k \<mapsto> v)]\<rparr>)"
  by (simp add: map_assign_def deref_def store_def)

lemma unmarshal_loop_eq:
  "Attributes a = Some p \<Longrightarrow> p < length (attrmaps h) \<Longrightarrow>
   unmarshal_loop a pairs h =
     Some (h\<lparr>attrmaps := (attrmaps h)[p := fold put_fragment pairs (attrmaps h ! p)]\<rparr>)"
proof (induction pairs arbitrary: h)
  case Nil
  then show ?case by simp
next
  case (Cons pair pairs)
  have "put_fragment pair (attrmaps h ! p) = (attrmaps h ! p)(fragment_key pair \<mapsto> fragment_value pair)"
    by (simp add: put_fragment_def)
  with Cons show ?case
    by (simp add: unmarshal_loop_Cons map_assign_eq del: unmarshal_loop.simps)
qed

lemma UnmarshalXMLAttr_eq:
  "UnmarshalXMLAttr (Some a) attr h =
     Some (None, a\<lparr>Attributes := Some (length (attrmaps h))\<rparr>,
           h\<lparr>attrmaps := attrmaps h @ [decoded_entries (Attr.Value attr)]\<rparr>)"
  by (simp add: UnmarshalXMLAttr_def make_map_def alloc_def unmarshal_loop_eq decoded_entries_def)

lemma decode_string_eq: "decode_string s = Some (decoded_entries s)"
  by (simp add: decode_string_def UnmarshalXMLAttr_eq entries_def deref_def empty_heap_def)

lemma fold_put_fragment_find:
  "fold put_fragment pairs m k =
     (case find (\<lambda>pair. fragment_key pair = k) (rev pairs) of
        None \<Rightarrow> m k | Some pair \<Rightarrow> Some (fragment_value pair))"
  by (induction pairs rule: rev_induct) (auto simp: put_fragment_def)

lemma decoded_entries_find:
  "decoded_entries s k =
     map_option fragment_value (find (\<lambda>pair. fragment_key pair = k) (rev (Split s CHR '';'')))"
  by (simp add: decoded_entries_def fold_put_fragment_find split: option.splits)

lemma dom_fold_put_fragment:
  "dom (fold put_fragment pairs m) = dom m \<union> fragment_key ` set pairs"
  by (induction pairs arbitrary: m) (auto simp: put_fragment_def)

lemma dom_decoded_entries: "dom (decoded_entries s) = fragment_key ` set (Split s CHR '';'')"
  by (simp add: decoded_entries_def dom_fold_put_fragment)

lemma decoded_entries_not_empty: "decoded_entries s \<noteq> Map.empty"
proof
  assume "decoded_entries s = Map.empty"
  then have "dom (decoded_entries s) = {}" by simp
  then show False by (simp add: dom_decoded_entries Split_not_Nil)
qed

lemma fragment_no_eq:
  "CHR ''='' \<notin> set pair \<Longrightarrow> fragment_key pair = pair \<and> fragment_value pair = ''''"
  by (simp add: fragment_key_def fragment_value_def takeWhile_no_sep)

lemma fragment_one_eq:
  "CHR ''='' \<notin> set k \<Longrightarrow> CHR ''='' \<notin> set v \<Longrightarrow>
   fragment_key (k @ ''='' @ v) = k \<and> fragment_value (k @ ''='' @ v) = v"
  by (simp add: fragment_key_def fragment_value_def takeWhile_upto_sep takeWhile_no_sep)

lemma fragment_more_eq:
  "CHR ''='' \<notin> set k \<Longrightarrow> CHR ''='' \<notin> set v \<Longrightarrow>
   fragment_key (k @ ''='' @ v @ ''='' @ rest) = k \<and> fragment_value (k @ ''='' @ v @ ''='' @ rest) = v"
  by (simp add: fragment_key_def fragment_value_def takeWhile_upto_sep)

lemma decoded_entries_empty_string: "decoded_entries '''' = ['''' \<mapsto> '''']"
  by (simp add: decoded_entries_def Split_Nil put_fragment_def fragment_key_def fragment_value_def)

lemma marshal_loop_eq:
  "marshal_loop kvs t = t @ concat (map (\<lambda>(k, v). render_entry k v) kvs)"
  by (induction kvs arbitrary: t) (auto simp: render_entry_def Let_def)

lemma range_pairs_Nil: "range_pairs m [] = []"
  by (simp add: range_pairs_def map_filter_simps)

lemma range_pairs_Cons:
  "range_pairs m (k # ks) = (case m k of None \<Rightarrow> range_pairs m ks | Some v \<Rightarrow> (k, v) # range_pairs m ks)"
  by (simp add: range_pairs_def map_filter_simps split: option.splits)

lemma set_range_pairs: "set (range_pairs m ks) = {(k, v). k \<in> set ks \<and> m k = Some v}"
  by (induction ks) (auto simp: range_pairs_Nil range_pairs_Cons split: option.splits)

lemma distinct_range_pairs: "distinct ks \<Longrightarrow> distinct (map fst (range_pairs m ks))"
  by (induction ks) (auto simp: range_pairs_Nil range_pairs_Cons set_range_pairs split: option.splits)

lemma MarshalXMLAttr_eq:
  "MarshalXMLAttr ks a name h =
     (\<lparr>Name = \<lparr>Space = '''', Local = ''style''\<rparr>,
       Value = concat (map (\<lambda>(k, v). render_entry k v) (range_pairs (entries h (Attributes a)) ks))\<rparr>, None)"
  by (simp add: MarshalXMLAttr_def marshal_loop_eq)

text \<open>Splitting an encoding of clean entries gives back one fragment per entry, and a last
  empty fragment after the last \<open>;\<close>.\<close>

lemma Split_rendered:
  "\<forall>(k, v) \<in> set kvs. clean k \<and> clean v \<Longrightarrow>
   Split (concat (map (\<lambda>(k, v). render_entry k v) kvs)) CHR '';'' =
     map (\<lambda>(k, v). if v = '''' then k else k @ ''='' @ v) kvs @ ['''']"
proof (induction kvs)
  case Nil
  then show ?case by (simp add: Split_Nil)
next
  case (Cons kv kvs)
  obtain k v where kv: "kv = (k, v)" by (cases kv)
  have c: "clean k" "clean v" using Cons.prems kv by auto
  have 1: "render_entry k v = (if v = '''' then k else k @ ''='' @ v) @ CHR '';'' # []"
    by (simp add: render_entry_def)
  have 2: "CHR '';'' \<notin> set (if v = '''' then k else k @ ''='' @ v)"
    using c by (simp add: clean_def)
  have "Split (render_entry k v @ concat (map (\<lambda>(k, v). render_entry k v) kvs)) CHR '';'' =
        (if v = '''' then k else k @ ''='' @ v) # Split (concat (map (\<lambda>(k, v). render_entry k v) kvs)) CHR '';''"
    unfolding 1 using Split_append_sep[OF 2] by simp
  with Cons kv show ?case by simp
qed

lemma put_fragment_rendered:
  "clean k \<Longrightarrow> clean v \<Longrightarrow> put_fragment (if v = '''' then k else k @ ''='' @ v) m = m(k \<mapsto> v)"
  using fragment_one_eq[of k v] fragment_no_eq[of k]
  by (auto simp: put_fragment_def clean_def)

lemma fold_put_fragment_rendered:
  "\<forall>(k, v) \<in> set kvs. clean k \<and> clean v \<Longrightarrow>
   fold put_fragment (map (\<lambda>(k, v). if v = '''' then k else k @ ''='' @ v) kvs) m =
     fold (\<lambda>(k, v) m. m(k \<mapsto> v)) kvs m"
proof (induction kvs arbitrary: m)
  case Nil
  then show ?case by simp
next
  case (Cons kv kvs)
  obtain k v where kv: "kv = (k, v)" by (cases kv)
  have c: "clean k" "clean v" using Cons.prems kv by auto
  show ?case using Cons kv put_fragment_rendered[OF c] by (simp del: fun_upd_apply)
qed

lemma fold_upd_range_pairs:
  "fold (\<lambda>(k, v) m. m(k \<mapsto> v)) (range_pairs m ks) m0 k =
     (if k \<in> set ks then (case m k of None \<Rightarrow> m0 k | Some v \<Rightarrow> Some v) else m0 k)"
  by (induction ks arbitrary: m0) (auto simp: range_pairs_Nil range_pairs_Cons split: option.splits)

lemma fold_upd_range_order:
  assumes "range_order m ks"
  shows "fold (\<lambda>(k, v) m. m(k \<mapsto> v)) (range_pairs m ks) Map.empty = m"
proof
  fix k
  show "fold (\<lambda>(k, v) m. m(k \<mapsto> v)) (range_pairs m ks) Map.empty k = m k"
    using assms by (auto simp: fold_upd_range_pairs range_order_def split: option.splits)
qed

lemma decoded_entries_rendered:
  assumes "range_order m ks" and "\<forall>k v. m k = Some v \<longrightarrow> clean k \<and> clean v"
  shows "decoded_entries (concat (map (\<lambda>(k, v). render_entry k v) (range_pairs m ks))) = m('''' \<mapsto> '''')"
proof -
  have cl: "\<forall>(k, v) \<in> set (range_pairs m ks). clean k \<and> clean v"
    using assms(2) by (auto simp: set_range_pairs)
  have "put_fragment '''' m = m('''' \<mapsto> '''')" for m
    by (simp add: put_fragment_def fragment_key_def fragment_value_def)
  then show ?thesis
    by (simp add: decoded_entries_def Split_rendered[OF cl] fold_put_fragment_rendered[OF cl]
        fold_upd_range_order[OF assms(1)])
qed

lemma decode_of_encode_eq:
  assumes "range_order (entries h (Attributes a)) ks"
    and "\<forall>k v. entries h (Attributes a) k = Some v \<longrightarrow> clean k \<and> clean v"
  shows "decode_of_encode ks a name b h = Some ((entries h (Attributes a))('''' \<mapsto> ''''))"
  using decoded_entries_rendered[OF assms]
  by (simp add: decode_of_encode_def MarshalXMLAttr_eq UnmarshalXMLAttr_eq entries_def deref_alloc_new)

text \<open>The entries of the map of \<open>example_heap\<close>, its encoding in the order dashed, rounded,
  and the decoding of that string.\<close>

lemma example_entries:
  "entries example_heap (Attributes \<lparr>Attributes = Some 0\<rparr>) = [''rounded'' \<mapsto> ''1'', ''dashed'' \<mapsto> '''']"
  by (simp add: entries_def deref_def example_heap_def)

lemma example_range_order:
  "range_order (entries example_heap (Attributes \<lparr>Attributes = Some 0\<rparr>)) [''dashed'', ''rounded'']"
  unfolding example_entries by (auto simp: range_order_def)

lemma example_clean:
  "\<forall>k v. entries example_heap (Attributes \<lparr>Attributes = Some 0\<rparr>) k = Some v \<longrightarrow> clean k \<and> clean v"
  unfolding example_entries by (auto simp: clean_def split: if_splits)

lemma example_marshal:
  "MarshalXMLAttr [''dashed'', ''rounded''] \<lparr>Attributes = Some 0\<rparr> zero_Name example_heap =
     (\<lparr>Name = \<lparr>Space = '''', Local = ''style''\<rparr>, Value = ''dashed;rounded=1;''\<rparr>, None)"
  unfolding MarshalXMLAttr_def example_entries by (simp add: range_pairs_def map_filter_simps)

lemma Split_semicolon_example:
  "Split ''dashed;rounded=1;'' CHR '';'' = [''dashed'', ''rounded=1'', '''']"
  using Split_append_sep[of "CHR '';''" "''dashed''" "''rounded=1;''"]
    Split_append_sep[of "CHR '';''" "''rounded=1''" "''''"]
  by (simp add: Split_Nil)

lemma decoded_entries_example:
  "decoded_entries ''dashed;rounded=1;'' = [''dashed'' \<mapsto> '''', ''rounded'' \<mapsto> ''1'', '''' \<mapsto> '''']"
  by (simp add: decoded_entries_def Split_semicolon_example put_fragment_def fragment_key_def
      fragment_value_def)

lemma decoded_entries_trailing_semicolon:
  "decoded_entries ''a=1;b=2;'' = [''a'' \<mapsto> ''1'', ''b'' \<mapsto> ''2'', '''' \<mapsto> '''']"
proof -
  have "Split ''a=1;b=2;'' CHR '';'' = [''a=1'', ''b=2'', '''']"
    using Split_append_sep[of "CHR '';''" "''a=1''" "''b=2;''"]
      Split_append_sep[of "CHR '';''" "''b=2''" "''''"]
    by (simp add: Split_Nil)
  then show ?thesis
    by (simp add: decoded_entries_def put_fragment_def fragment_key_def fragment_value_def)
qed

lemma decoded_entries_two_equals: "decoded_entries ''a=b=c'' = [''a'' \<mapsto> ''b'']"
proof -
  have "Split ''a=b=c'' CHR '';'' = [''a=b=c'']"
    by (simp add: Split_no_sep)
  then show ?thesis
    by (simp add: decoded_entries_def put_fragment_def fragment_key_def fragment_value_def)
qed

lemma claimed_decoded_entries_two_equals: "claimed_decoded_entries ''a=b=c'' = [''a'' \<mapsto> ''b=c'']"
proof -
  have "Split ''a=b=c'' CHR '';'' = [''a=b=c'']"
    by (simp add: Split_no_sep)
  then show ?thesis
    by (simp add: claimed_decoded_entries_def claimed_fragment_value_def fragment_key_def)
qed

lemma decoded_entries_malformed:
  "decoded_entries ''=;novalue;x=1=2'' = ['''' \<mapsto> '''', ''novalue'' \<mapsto> '''', ''x'' \<mapsto> ''1'']"
proof -
  have "Split ''=;novalue;x=1=2'' CHR '';'' = [''='', ''novalue'', ''x=1=2'']"
    using Split_append_sep[of "CHR '';''" "''=''" "''novalue;x=1=2''"]
      Split_append_sep[of "CHR '';''" "''novalue''" "''x=1=2''"]
    by (simp add: Split_no_sep)
  then show ?thesis
    by (simp add: decoded_entries_def put_fragment_def fragment_key_def fragment_value_def)
qed

section \<open>The style codec: MarshalXMLAttr and UnmarshalXMLAttr\<close>

text \<open>
  C8. For every Style, in every iteration order \<open>ks\<close> of its map, the value of the
  attribute that MarshalXMLAttr returns is the concatenation, in that order, of the
  renderings of the pairs that the loop meets: \<open>key;\<close> for an empty value, \<open>key=value;\<close>
  otherwise, keys and values copied as they are. The pairs that the loop meets are the
  entries of the map, each one once. The error is nil, and the map with no entries is
  encoded as the empty string.
\<close>

theorem MarshalXMLAttr_renders_each_entry:
  assumes "range_order (entries h (Attributes a)) ks"
  shows "Attr.Value (fst (MarshalXMLAttr ks a name h)) =
           concat (map (\<lambda>(k, v). render_entry k v) (range_pairs (entries h (Attributes a)) ks)) \<and>
         distinct (map fst (range_pairs (entries h (Attributes a)) ks)) \<and>
         set (range_pairs (entries h (Attributes a)) ks) = {(k, v). entries h (Attributes a) k = Some v} \<and>
         snd (MarshalXMLAttr ks a name h) = None \<and>
         (entries h (Attributes a) = Map.empty \<longrightarrow> Attr.Value (fst (MarshalXMLAttr ks a name h)) = '''')"
proof -
  have "set (range_pairs (entries h (Attributes a)) ks) = {(k, v). entries h (Attributes a) k = Some v}"
    using assms by (auto simp: set_range_pairs range_order_def)
  moreover have "entries h (Attributes a) = Map.empty \<Longrightarrow> ks = []"
    using assms by (simp add: range_order_def)
  ultimately show ?thesis
    using assms by (auto simp: MarshalXMLAttr_eq distinct_range_pairs range_order_def range_pairs_Nil)
qed

text \<open>The theorem at the map \<open>{rounded: 1, dashed: ""}\<close> of \<open>example_heap\<close>, iterated in the
  order dashed, rounded.\<close>

theorem MarshalXMLAttr_renders_each_entry_witness:
  "range_order (entries example_heap (Attributes \<lparr>Attributes = Some 0\<rparr>)) [''dashed'', ''rounded''] \<and>
   Attr.Value (fst (MarshalXMLAttr [''dashed'', ''rounded''] \<lparr>Attributes = Some 0\<rparr> zero_Name example_heap)) =
     ''dashed;rounded=1;''"
proof -
  note r = example_range_order
  from MarshalXMLAttr_renders_each_entry[OF r, of zero_Name] r show ?thesis
    unfolding example_entries by (simp add: range_pairs_def map_filter_simps render_entry_def)
qed

text \<open>
  C1, as the code has it. For every Style whose keys and values contain neither \<open>;\<close> nor
  \<open>=\<close>, and in every iteration order, decoding the encoding yields the entries of the
  Style and, in addition, the entry with the empty key and the empty value (which replaces
  an entry that the Style had under the empty key): the last fragment of the encoding,
  the text after its last \<open>;\<close> or the whole encoding of the mapping with no entries, is
  empty, and the decoder turns it into that entry. So the result equals the original
  mapping exactly when the original maps the empty key to the empty value.
\<close>

theorem decode_of_encode_adds_empty_key:
  assumes "range_order (entries h (Attributes a)) ks"
    and "\<forall>k v. entries h (Attributes a) k = Some v \<longrightarrow> clean k \<and> clean v"
  shows "decode_of_encode ks a name b h = Some ((entries h (Attributes a))('''' \<mapsto> '''')) \<and>
         (decode_of_encode ks a name b h = Some (entries h (Attributes a))
            \<longleftrightarrow> entries h (Attributes a) '''' = Some '''')"
proof -
  have 1: "decode_of_encode ks a name b h = Some ((entries h (Attributes a))('''' \<mapsto> ''''))"
    by (rule decode_of_encode_eq[OF assms])
  have "(entries h (Attributes a))('''' \<mapsto> '''') = entries h (Attributes a)
          \<longleftrightarrow> entries h (Attributes a) '''' = Some ''''"
    by (metis fun_upd_same fun_upd_triv)
  with 1 show ?thesis by simp
qed

text \<open>The theorem at the map \<open>{rounded: 1, dashed: ""}\<close> of \<open>example_heap\<close>.\<close>

theorem decode_of_encode_adds_empty_key_witness:
  "range_order (entries example_heap (Attributes \<lparr>Attributes = Some 0\<rparr>)) [''dashed'', ''rounded''] \<and>
   entries example_heap (Attributes \<lparr>Attributes = Some 0\<rparr>) = [''rounded'' \<mapsto> ''1'', ''dashed'' \<mapsto> ''''] \<and>
   clean ''rounded'' \<and> clean ''1'' \<and> clean ''dashed'' \<and> clean '''' \<and>
   decode_of_encode [''dashed'', ''rounded''] \<lparr>Attributes = Some 0\<rparr> zero_Name zero_Style example_heap =
     Some [''rounded'' \<mapsto> ''1'', ''dashed'' \<mapsto> '''', '''' \<mapsto> '''']"
proof -
  note r = example_range_order and c = example_clean
  have "clean ''rounded'' \<and> clean ''1'' \<and> clean ''dashed'' \<and> clean ''''"
    by (simp add: clean_def)
  with decode_of_encode_adds_empty_key[OF r c, of zero_Name zero_Style] r show ?thesis
    unfolding example_entries by simp
qed

text \<open>
  C1 as the claim states it fails: the map \<open>{rounded: 1, dashed: ""}\<close>, whose keys and
  values contain neither \<open>;\<close> nor \<open>=\<close>, is encoded as \<open>dashed;rounded=1;\<close> and decoded into
  a map of three entries, which is not the original one.
\<close>

theorem decode_of_encode_counterexample:
  "entries example_heap (Attributes \<lparr>Attributes = Some 0\<rparr>) = [''rounded'' \<mapsto> ''1'', ''dashed'' \<mapsto> ''''] \<and>
   decode_of_encode [''dashed'', ''rounded''] \<lparr>Attributes = Some 0\<rparr> zero_Name zero_Style example_heap =
     Some [''rounded'' \<mapsto> ''1'', ''dashed'' \<mapsto> '''', '''' \<mapsto> ''''] \<and>
   [''rounded'' \<mapsto> ''1'', ''dashed'' \<mapsto> '''', '''' \<mapsto> ''''] \<noteq> [''rounded'' \<mapsto> ''1'', ''dashed'' \<mapsto> '''']"
proof -
  have "[''dashed'' \<mapsto> '''', ''rounded'' \<mapsto> ''1'', '''' \<mapsto> ''''] = [''rounded'' \<mapsto> ''1'', ''dashed'' \<mapsto> '''', '''' \<mapsto> '''']"
    by (auto simp: fun_eq_iff)
  moreover have "[''rounded'' \<mapsto> ''1'', ''dashed'' \<mapsto> '''', '''' \<mapsto> ''''] '''' \<noteq> [''rounded'' \<mapsto> ''1'', ''dashed'' \<mapsto> ''''] ''''"
    by simp
  then have "[''rounded'' \<mapsto> ''1'', ''dashed'' \<mapsto> '''', '''' \<mapsto> ''''] \<noteq> [''rounded'' \<mapsto> ''1'', ''dashed'' \<mapsto> '''']"
    by metis
  ultimately show ?thesis
    using example_entries decoded_entries_example
    by (simp add: decode_of_encode_def example_marshal UnmarshalXMLAttr_eq entries_def deref_alloc_new
        del: fun_upd_apply)
qed

text \<open>
  C2, as the code has it. For every input string, UnmarshalXMLAttr returns the nil error
  and leaves a map in which each key \<open>k\<close> has the value of the last fragment, among the
  fragments between the \<open>;\<close>, whose key is \<open>k\<close> (last write wins), and no entry when no
  fragment has that key. The key of a fragment is its text before the first \<open>=\<close>; its
  value is the text between the first \<open>=\<close> and the second one: the whole rest when there
  is only one \<open>=\<close>, empty when there is none, and cut at the second \<open>=\<close> when there are
  more (what follows the second \<open>=\<close> is dropped). A trailing \<open>;\<close> gives a last empty
  fragment, hence an entry with the empty key and the empty value, as in \<open>a=1;b=2;\<close>.
\<close>

theorem UnmarshalXMLAttr_fragment_entries:
  "(\<exists>a' h'. UnmarshalXMLAttr (Some a) attr h = Some (None, a', h') \<and>
      (\<forall>k. entries h' (Attributes a') k =
         map_option fragment_value
           (find (\<lambda>pair. fragment_key pair = k) (rev (Split (Attr.Value attr) CHR '';''))))) \<and>
   (\<forall>pair. CHR ''='' \<notin> set pair \<longrightarrow> fragment_key pair = pair \<and> fragment_value pair = '''') \<and>
   (\<forall>k v. CHR ''='' \<notin> set k \<and> CHR ''='' \<notin> set v \<longrightarrow>
      fragment_key (k @ ''='' @ v) = k \<and> fragment_value (k @ ''='' @ v) = v) \<and>
   (\<forall>k v rest. CHR ''='' \<notin> set k \<and> CHR ''='' \<notin> set v \<longrightarrow>
      fragment_key (k @ ''='' @ v @ ''='' @ rest) = k \<and>
      fragment_value (k @ ''='' @ v @ ''='' @ rest) = v) \<and>
   decode_string ''a=1;b=2;'' = Some [''a'' \<mapsto> ''1'', ''b'' \<mapsto> ''2'', '''' \<mapsto> '''']"
proof -
  have "\<exists>a' h'. UnmarshalXMLAttr (Some a) attr h = Some (None, a', h') \<and>
      (\<forall>k. entries h' (Attributes a') k =
         map_option fragment_value
           (find (\<lambda>pair. fragment_key pair = k) (rev (Split (Attr.Value attr) CHR '';''))))"
    by (simp add: UnmarshalXMLAttr_eq entries_def deref_alloc_new decoded_entries_find)
  moreover have "decode_string ''a=1;b=2;'' = Some [''a'' \<mapsto> ''1'', ''b'' \<mapsto> ''2'', '''' \<mapsto> '''']"
    by (simp only: decode_string_eq decoded_entries_trailing_semicolon)
  ultimately show ?thesis
    using fragment_no_eq fragment_one_eq fragment_more_eq by blast
qed

text \<open>The theorem's statements about fragments at \<open>flag\<close>, \<open>a=b\<close> and \<open>a=b=c\<close>.\<close>

theorem UnmarshalXMLAttr_fragment_entries_witness:
  "CHR ''='' \<notin> set ''flag'' \<and> CHR ''='' \<notin> set ''a'' \<and> CHR ''='' \<notin> set ''b'' \<and>
   fragment_key ''flag'' = ''flag'' \<and> fragment_value ''flag'' = '''' \<and>
   fragment_key ''a=b'' = ''a'' \<and> fragment_value ''a=b'' = ''b'' \<and>
   fragment_key ''a=b=c'' = ''a'' \<and> fragment_value ''a=b=c'' = ''b''"
proof -
  have 1: "CHR ''='' \<notin> set ''flag''" and 2: "CHR ''='' \<notin> set ''a''" and 3: "CHR ''='' \<notin> set ''b''"
    by simp_all
  note t = UnmarshalXMLAttr_fragment_entries[of zero_Style "\<lparr>Name = zero_Name, Value = ''''\<rparr>" empty_heap]
  from t 1 have "fragment_key ''flag'' = ''flag'' \<and> fragment_value ''flag'' = ''''"
    by blast
  moreover from t 2 3 have "fragment_key (''a'' @ ''='' @ ''b'') = ''a'' \<and> fragment_value (''a'' @ ''='' @ ''b'') = ''b''"
    by blast
  moreover from t 2 3 have "fragment_key (''a'' @ ''='' @ ''b'' @ ''='' @ ''c'') = ''a'' \<and>
      fragment_value (''a'' @ ''='' @ ''b'' @ ''='' @ ''c'') = ''b''"
    by blast
  ultimately show ?thesis using 1 2 3 by simp
qed

text \<open>
  C2 as the claim states it, with the value of a fragment "everything after the first
  \<open>=\<close>", fails at the input \<open>a=b=c\<close>: the code stores \<open>b\<close> under the key \<open>a\<close>, where the
  claim has \<open>b=c\<close>.
\<close>

theorem UnmarshalXMLAttr_value_counterexample:
  "decode_string ''a=b=c'' = Some [''a'' \<mapsto> ''b''] \<and>
   claimed_decoded_entries ''a=b=c'' = [''a'' \<mapsto> ''b=c''] \<and>
   decode_string ''a=b=c'' \<noteq> Some (claimed_decoded_entries ''a=b=c'')"
proof -
  have "[''a'' \<mapsto> ''b''] ''a'' \<noteq> [''a'' \<mapsto> ''b=c''] ''a''"
    by simp
  then have "[''a'' \<mapsto> ''b''] \<noteq> [''a'' \<mapsto> ''b=c'']"
    by metis
  then show ?thesis
    by (simp only: decode_string_eq decoded_entries_two_equals claimed_decoded_entries_two_equals
        option.inject simp_thms)
qed

text \<open>
  C9. For every Style that the receiver points to, every attribute and every heap,
  UnmarshalXMLAttr returns, without a panic, the nil error, and leaves the Style with a
  map (not nil) whose keys are the keys of all the fragments of the input: a fragment
  that is not of the form \<open>key=value\<close> is not rejected, it is stored with the empty string
  where a part is missing, as in \<open>=;novalue;x=1=2\<close>.
\<close>

theorem UnmarshalXMLAttr_never_fails:
  "(\<exists>a' h' m. UnmarshalXMLAttr (Some a) attr h = Some (None, a', h') \<and>
      deref (attrmaps h') (Attributes a') = Some m \<and>
      dom m = fragment_key ` set (Split (Attr.Value attr) CHR '';'')) \<and>
   decode_string ''=;novalue;x=1=2'' = Some ['''' \<mapsto> '''', ''novalue'' \<mapsto> '''', ''x'' \<mapsto> ''1'']"
proof -
  have "\<exists>a' h' m. UnmarshalXMLAttr (Some a) attr h = Some (None, a', h') \<and>
      deref (attrmaps h') (Attributes a') = Some m \<and>
      dom m = fragment_key ` set (Split (Attr.Value attr) CHR '';'')"
    by (simp add: UnmarshalXMLAttr_eq deref_alloc_new dom_decoded_entries)
  moreover have "decode_string ''=;novalue;x=1=2'' = Some ['''' \<mapsto> '''', ''novalue'' \<mapsto> '''', ''x'' \<mapsto> ''1'']"
    by (simp only: decode_string_eq decoded_entries_malformed)
  ultimately show ?thesis by blast
qed

text \<open>
  C10. For every Style that the receiver points to, every attribute and every heap,
  UnmarshalXMLAttr makes the Style refer to a map that did not exist before the call and
  leaves the maps that existed as they were; the entries of the new map are the entries
  derived from the input string, whatever the Style held before; they are never none;
  and the entries derived from the empty string are the single entry with the empty key
  and the empty value.
\<close>

theorem UnmarshalXMLAttr_replaces_map:
  "(\<exists>a' h'. UnmarshalXMLAttr (Some a) attr h = Some (None, a', h') \<and>
      Attributes a' = Some (length (attrmaps h)) \<and>
      deref (attrmaps h) (Attributes a') = None \<and>
      take (length (attrmaps h)) (attrmaps h') = attrmaps h \<and>
      entries h' (Attributes a') = decoded_entries (Attr.Value attr) \<and>
      entries h' (Attributes a') \<noteq> Map.empty) \<and>
   decoded_entries '''' = ['''' \<mapsto> '''']"
proof -
  have "\<exists>a' h'. UnmarshalXMLAttr (Some a) attr h = Some (None, a', h') \<and>
      Attributes a' = Some (length (attrmaps h)) \<and>
      deref (attrmaps h) (Attributes a') = None \<and>
      take (length (attrmaps h)) (attrmaps h') = attrmaps h \<and>
      entries h' (Attributes a') = decoded_entries (Attr.Value attr) \<and>
      entries h' (Attributes a') \<noteq> Map.empty"
    using decoded_entries_not_empty[of "Attr.Value attr"]
    by (simp add: UnmarshalXMLAttr_eq entries_def deref_alloc_new) (simp add: deref_def)
  then show ?thesis
    using decoded_entries_empty_string by blast
qed

end
